theory Spec2Isabelle
  imports Main "HOL-Library.Sublist"
begin

section \<open>Python values, strings and exceptions\<close>

text \<open>
  The pipeline of \<^verbatim>\<open>travel_planner_app.py\<close> (\<^verbatim>\<open>parse_llm_json\<close>, \<^verbatim>\<open>get_weather\<close>,
  \<^verbatim>\<open>review_itinerary\<close>, \<^verbatim>\<open>create_itinerary\<close>) is embedded as HOL functions.

  A Python \<^verbatim>\<open>str\<close> is a sequence of Unicode code points, so it is modelled as a list of
  naturals; \<open>lit\<close> turns an ASCII literal into such a list.
\<close>

type_synonym ustr = "nat list"

definition lit :: "string \<Rightarrow> ustr" where
  "lit s = map of_char s"

text \<open>
  The values that circulate are the objects \<^verbatim>\<open>json.loads\<close> builds: \<^verbatim>\<open>None\<close>, \<^verbatim>\<open>bool\<close>,
  \<^verbatim>\<open>int\<close>, \<^verbatim>\<open>float\<close>, \<^verbatim>\<open>str\<close>, \<^verbatim>\<open>list\<close> and \<^verbatim>\<open>dict\<close>. A dict keeps its insertion
  order and is an association list; a float is identified by the text of its literal
  (no property below computes with floats).
\<close>

datatype pyval =
    PNone
  | PBool bool
  | PInt int
  | PFloat ustr
  | PStr ustr
  | PList "pyval list"
  | PDict "(ustr \<times> pyval) list"

text \<open>
  Exceptions are values. Every constructor stands for a subclass of Python's
  \<^verbatim>\<open>Exception\<close>, which is what the handlers \<^verbatim>\<open>except Exception\<close> of the source catch.
\<close>

datatype py_error =
    TypeError
  | KeyError
  | IndexError
  | ValueError
  | JSONDecodeError
  | RecursionError
  | ConnectionError
  | Timeout
  | APIError

definition bind :: "py_error + 'a \<Rightarrow> ('a \<Rightarrow> py_error + 'b) \<Rightarrow> py_error + 'b" where
  "bind m f = (case m of Inl e \<Rightarrow> Inl e | Inr x \<Rightarrow> f x)"

text \<open>\<^verbatim>\<open>isinstance(v, list)\<close>, \<^verbatim>\<open>isinstance(v, dict)\<close>, \<^verbatim>\<open>isinstance(v, str)\<close>.\<close>

fun is_list :: "pyval \<Rightarrow> bool" where
  "is_list (PList xs) = True"
| "is_list v = False"

fun is_dict :: "pyval \<Rightarrow> bool" where
  "is_dict (PDict kvs) = True"
| "is_dict v = False"

fun is_str :: "pyval \<Rightarrow> bool" where
  "is_str (PStr s) = True"
| "is_str v = False"

subsection \<open>Dict operations\<close>

text \<open>\<^verbatim>\<open>d.get(k, default)\<close> and \<^verbatim>\<open>d[k] = v\<close> (an existing key keeps its place, a new
  key goes last).\<close>

definition dict_get :: "(ustr \<times> pyval) list \<Rightarrow> ustr \<Rightarrow> pyval \<Rightarrow> pyval" where
  "dict_get kvs k dflt = (case map_of kvs k of None \<Rightarrow> dflt | Some v \<Rightarrow> v)"

fun dict_set :: "ustr \<Rightarrow> pyval \<Rightarrow> (ustr \<times> pyval) list \<Rightarrow> (ustr \<times> pyval) list" where
  "dict_set k v [] = [(k, v)]"
| "dict_set k v (p # ps) = (if fst p = k then (k, v) # ps else p # dict_set k v ps)"

text \<open>\<^verbatim>\<open>v[key]\<close> with a string key, and \<^verbatim>\<open>v[0]\<close>, on any value: a dict without the key
  raises KeyError (an integer is never a key of a decoded JSON object), an empty list or
  string raises IndexError, every other combination raises TypeError.\<close>

fun getitem_key :: "pyval \<Rightarrow> ustr \<Rightarrow> py_error + pyval" where
  "getitem_key (PDict kvs) k = (case map_of kvs k of None \<Rightarrow> Inl KeyError | Some v \<Rightarrow> Inr v)"
| "getitem_key v k = Inl TypeError"

fun getitem_0 :: "pyval \<Rightarrow> py_error + pyval" where
  "getitem_0 (PList xs) = (case xs of [] \<Rightarrow> Inl IndexError | x # _ \<Rightarrow> Inr x)"
| "getitem_0 (PStr s) = (case s of [] \<Rightarrow> Inl IndexError | c # _ \<Rightarrow> Inr (PStr [c]))"
| "getitem_0 (PDict kvs) = Inl KeyError"
| "getitem_0 v = Inl TypeError"

subsection \<open>String operations\<close>

text \<open>
  \<^verbatim>\<open>str.strip()\<close> removes, at both ends, the code points for which \<^verbatim>\<open>str.isspace\<close>
  holds; \<^verbatim>\<open>str.strip(chars)\<close> removes the code points that occur in \<^verbatim>\<open>chars\<close>.
\<close>

definition is_space :: "nat \<Rightarrow> bool" where
  "is_space c =
     ((9 \<le> c \<and> c \<le> 13) \<or> (28 \<le> c \<and> c \<le> 32) \<or> c = 133 \<or> c = 160 \<or> c = 5760 \<or>
      (8192 \<le> c \<and> c \<le> 8202) \<or> c = 8232 \<or> c = 8233 \<or> c = 8239 \<or> c = 8287 \<or> c = 12288)"

definition strip_with :: "(nat \<Rightarrow> bool) \<Rightarrow> ustr \<Rightarrow> ustr" where
  "strip_with P s = rev (dropWhile P (rev (dropWhile P s)))"

definition py_strip :: "ustr \<Rightarrow> ustr" where
  "py_strip s = strip_with is_space s"

definition py_strip_chars :: "ustr \<Rightarrow> ustr \<Rightarrow> ustr" where
  "py_strip_chars chars s = strip_with (\<lambda>c. c \<in> set chars) s"

text \<open>The fence markup: three backticks, optionally followed by \<^verbatim>\<open>json\<close>.\<close>

definition fence :: ustr where
  "fence = lit ''```''"

definition fence_json :: ustr where
  "fence_json = lit ''```json''"

text \<open>
  \<^verbatim>\<open>re.sub(r"```(?:json)?", "", text)\<close>: scanning from the left, every match of three
  backticks, with a directly following \<^verbatim>\<open>json\<close> when there is one (the optional group
  is greedy), is deleted and the scan goes on after the match.
\<close>

fun re_sub_fence :: "ustr \<Rightarrow> ustr" where
  "re_sub_fence [] = []"
| "re_sub_fence (c # cs) =
     (if prefix fence_json (c # cs) then re_sub_fence (drop 6 cs)
      else if prefix fence (c # cs) then re_sub_fence (drop 2 cs)
      else c # re_sub_fence cs)"

text \<open>\<^verbatim>\<open>cleaned.replace("```", "")\<close>: the same scan for three backticks alone.\<close>

fun replace_fence :: "ustr \<Rightarrow> ustr" where
  "replace_fence [] = []"
| "replace_fence (c # cs) =
     (if prefix fence (c # cs) then replace_fence (drop 2 cs)
      else c # replace_fence cs)"

text \<open>Whether three backticks occur somewhere in a string.\<close>

fun contains_fence :: "ustr \<Rightarrow> bool" where
  "contains_fence [] = False"
| "contains_fence (c # cs) = (prefix fence (c # cs) \<or> contains_fence cs)"

text \<open>The number of backticks a string starts with.\<close>

definition backtick_run :: "ustr \<Rightarrow> nat" where
  "backtick_run s = length (takeWhile (\<lambda>c. c = 96) s)"

section \<open>External collaborators\<close>

text \<open>
  The library and network calls of the source are not part of the repository; they are
  fields of an environment, each returning either the exception it raises or its result:
  \<^item> \<open>json_loads\<close>: \<^verbatim>\<open>json.loads\<close>;
  \<^item> \<open>quote\<close>: \<^verbatim>\<open>urllib.parse.quote\<close>;
  \<^item> \<open>requests_get_json\<close>: \<^verbatim>\<open>requests.get(url, timeout=5).json()\<close>;
  \<^item> \<open>format_value\<close>: what an f-string field \<^verbatim>\<open>{v}\<close> renders for a value that is
    not a string (a string renders as itself);
  \<^item> \<open>llm_generate\<close>: \<^verbatim>\<open>llm.invoke(prompt.format_messages(city=city, days=days,
    interests=interests)).content\<close>, the generation call with its fixed prompt template;
  \<^item> \<open>json_dumps_indent\<close>: \<^verbatim>\<open>json.dumps(v, indent=2)\<close>;
  \<^item> \<open>from_messages\<close>: \<^verbatim>\<open>ChatPromptTemplate.from_messages\<close> on the review messages,
    given the text of the human message;
  \<^item> \<open>llm_review\<close>: \<^verbatim>\<open>llm.invoke(review_prompt.format_messages()).content\<close>.
  The content of an LLM response is a string, as the chat model of the source returns it.
\<close>

record env =
  json_loads :: "ustr \<Rightarrow> py_error + pyval"
  quote :: "ustr \<Rightarrow> py_error + ustr"
  requests_get_json :: "ustr \<Rightarrow> py_error + pyval"
  format_value :: "pyval \<Rightarrow> py_error + ustr"
  llm_generate :: "ustr \<Rightarrow> int \<Rightarrow> ustr \<Rightarrow> py_error + ustr"
  json_dumps_indent :: "pyval \<Rightarrow> py_error + ustr"
  from_messages :: "ustr \<Rightarrow> py_error + ustr"
  llm_review :: "ustr \<Rightarrow> py_error + ustr"

section \<open>The response normalizer\<close>

text \<open>
  \<^verbatim>\<open>
  def parse_llm_json(text):
      cleaned = re.sub(r"```(?:json)?", "", text)
      cleaned = cleaned.replace("```", "").strip()
      try:
          return json.loads(cleaned)
      except Exception:
          return [{"day": 1, "activities": [{"time": "All day", "place_name": "Unknown",
                   "description": text}], "notes": ""}]
  \<close>
  \<open>clean_text\<close> is the value of \<^verbatim>\<open>cleaned\<close> when the \<^verbatim>\<open>try\<close> is entered,
  \<open>fallback_itinerary\<close> the value the handler returns.
\<close>

definition clean_text :: "ustr \<Rightarrow> ustr" where
  "clean_text text = py_strip (replace_fence (re_sub_fence text))"

definition fallback_itinerary :: "ustr \<Rightarrow> pyval" where
  "fallback_itinerary text =
     PList [PDict
       [(lit ''day'', PInt 1),
        (lit ''activities'', PList [PDict
           [(lit ''time'', PStr (lit ''All day'')),
            (lit ''place_name'', PStr (lit ''Unknown'')),
            (lit ''description'', PStr text)]]),
        (lit ''notes'', PStr [])]]"

definition parse_llm_json :: "env \<Rightarrow> ustr \<Rightarrow> py_error + pyval" where
  "parse_llm_json env text =
     (let cleaned = clean_text text in
      case json_loads env cleaned of
        Inr v \<Rightarrow> Inr v
      | Inl e \<Rightarrow> Inr (fallback_itinerary text))"

section \<open>The weather lookup\<close>

text \<open>
  \<^verbatim>\<open>
  def get_weather(city):
      try:
          url = f"https://wttr.in/{quote(city)}?format=j1"
          data = requests.get(url, timeout=5).json()
          cond = data["current_condition"][0]
          desc = cond["weatherDesc"][0]["value"]
          temp = cond["temp_C"]
          return f"{desc}, {temp}\u00b0C"
      except Exception:
          return "Weather data unavailable"
  \<close>
  \<open>get_weather_try\<close> is the body of the \<^verbatim>\<open>try\<close>; the degree sign is the code point 176.
  Both fields are read before either is rendered, as in the source.
\<close>

definition py_format :: "env \<Rightarrow> pyval \<Rightarrow> py_error + ustr" where
  "py_format env v = (case v of PStr s \<Rightarrow> Inr s | _ \<Rightarrow> format_value env v)"

definition weather_url :: "ustr \<Rightarrow> ustr" where
  "weather_url q = lit ''https://wttr.in/'' @ q @ lit ''?format=j1''"

definition weather_unavailable :: ustr where
  "weather_unavailable = lit ''Weather data unavailable''"

definition weather_text :: "ustr \<Rightarrow> ustr \<Rightarrow> ustr" where
  "weather_text desc temp = desc @ lit '', '' @ temp @ [176, 67]"

text \<open>The three subscript chains on the decoded response.\<close>

definition weather_fields :: "pyval \<Rightarrow> py_error + pyval \<times> pyval" where
  "weather_fields data =
     bind (getitem_key data (lit ''current_condition'')) (\<lambda>cc.
     bind (getitem_0 cc) (\<lambda>cond.
     bind (getitem_key cond (lit ''weatherDesc'')) (\<lambda>wd.
     bind (getitem_0 wd) (\<lambda>wd0.
     bind (getitem_key wd0 (lit ''value'')) (\<lambda>desc.
     bind (getitem_key cond (lit ''temp_C'')) (\<lambda>temp.
     Inr (desc, temp)))))))"

definition get_weather_try :: "env \<Rightarrow> ustr \<Rightarrow> py_error + ustr" where
  "get_weather_try env city =
     bind (quote env city) (\<lambda>q.
     bind (requests_get_json env (weather_url q)) (\<lambda>data.
     bind (weather_fields data) (\<lambda>fields.
     bind (py_format env (fst fields)) (\<lambda>d.
     bind (py_format env (snd fields)) (\<lambda>t.
     Inr (weather_text d t))))))"

definition get_weather :: "env \<Rightarrow> ustr \<Rightarrow> py_error + ustr" where
  "get_weather env city =
     (case get_weather_try env city of
        Inr s \<Rightarrow> Inr s
      | Inl e \<Rightarrow> Inr weather_unavailable)"

section \<open>The itinerary reviewer\<close>

text \<open>
  \<^verbatim>\<open>
  def review_itinerary(itinerary_json):
      review_prompt = ChatPromptTemplate.from_messages([
          ("system", "You are a travel expert. ..."),
          ("human", f"Here is the itinerary:\n{json.dumps(itinerary_json, indent=2)}")
      ])
      try:
          response = llm.invoke(review_prompt.format_messages())
          revised = parse_llm_json(response.content)
          return revised if isinstance(revised, list) else itinerary_json
      except Exception:
          return itinerary_json
  \<close>
  The prompt is built before the \<^verbatim>\<open>try\<close> is entered; \<open>review_try\<close> is the body of the
  \<^verbatim>\<open>try\<close>.
\<close>

definition review_human_message :: "ustr \<Rightarrow> ustr" where
  "review_human_message dumped = lit ''Here is the itinerary:'' @ [10] @ dumped"

definition review_try :: "env \<Rightarrow> ustr \<Rightarrow> pyval \<Rightarrow> py_error + pyval" where
  "review_try env review_prompt itinerary_json =
     bind (llm_review env review_prompt) (\<lambda>content.
     bind (parse_llm_json env content) (\<lambda>revised.
     Inr (if is_list revised then revised else itinerary_json)))"

definition review_itinerary :: "env \<Rightarrow> pyval \<Rightarrow> py_error + pyval" where
  "review_itinerary env itinerary_json =
     bind (json_dumps_indent env itinerary_json) (\<lambda>dumped.
     bind (from_messages env (review_human_message dumped)) (\<lambda>review_prompt.
       (case review_try env review_prompt itinerary_json of
          Inr r \<Rightarrow> Inr r
        | Inl e \<Rightarrow> Inr itinerary_json)))"

section \<open>The itinerary generator\<close>

text \<open>
  \<^verbatim>\<open>
      response = llm.invoke(prompt.format_messages(city=city, days=days, interests=interests))
      itinerary_json = parse_llm_json(response.content)

      # Ensure output is a list of dicts
      if isinstance(itinerary_json, dict):
          itinerary_json = [itinerary_json]
      elif isinstance(itinerary_json, str):
          itinerary_json = [{"day": 1, "activities": [{"time": "All Day",
              "place_name": "Unknown", "category": "Sightseeing",
              "description": itinerary_json}], "notes": ""}]
      elif not isinstance(itinerary_json, list):
          itinerary_json = [{"day": 1, "activities": [{"time": "All Day",
              "place_name": "Unknown", "category": "Sightseeing",
              "description": "Invalid response format."}], "notes": ""}]

      # Add weather safely
      weather = get_weather(city)
      for day in itinerary_json:
          if isinstance(day, dict):
              day["notes"] = (day.get("notes", "") + f" | Weather: {weather}").strip(" |")

      # Review and clean
      itinerary_json = review_itinerary(itinerary_json)
      return itinerary_json
  \<close>
\<close>

definition placeholder_day :: "ustr \<Rightarrow> pyval" where
  "placeholder_day description =
     PDict
       [(lit ''day'', PInt 1),
        (lit ''activities'', PList [PDict
           [(lit ''time'', PStr (lit ''All Day'')),
            (lit ''place_name'', PStr (lit ''Unknown'')),
            (lit ''category'', PStr (lit ''Sightseeing'')),
            (lit ''description'', PStr description)]]),
        (lit ''notes'', PStr [])]"

definition coerce_itinerary :: "pyval \<Rightarrow> pyval" where
  "coerce_itinerary itinerary_json =
     (if is_dict itinerary_json then PList [itinerary_json]
      else case itinerary_json of
        PStr s \<Rightarrow> PList [placeholder_day s]
      | _ \<Rightarrow>
          if \<not> is_list itinerary_json
          then PList [placeholder_day (lit ''Invalid response format.'')]
          else itinerary_json)"

text \<open>
  The right operand of the concatenation, and the concatenation itself: \<^verbatim>\<open>+\<close> between a
  value that is not a string and a string raises TypeError.
\<close>

definition weather_suffix :: "ustr \<Rightarrow> ustr" where
  "weather_suffix weather = lit '' | Weather: '' @ weather"

definition py_add_str :: "pyval \<Rightarrow> ustr \<Rightarrow> py_error + ustr" where
  "py_add_str v s = (case v of PStr n \<Rightarrow> Inr (n @ s) | _ \<Rightarrow> Inl TypeError)"

text \<open>The body of the loop, for one element of the list.\<close>

definition add_weather_day :: "ustr \<Rightarrow> pyval \<Rightarrow> py_error + pyval" where
  "add_weather_day weather day =
     (case day of
        PDict kvs \<Rightarrow>
          bind (py_add_str (dict_get kvs (lit ''notes'') (PStr [])) (weather_suffix weather))
            (\<lambda>notes. Inr (PDict (dict_set (lit ''notes'') (PStr (py_strip_chars (lit '' |'') notes)) kvs)))
      | _ \<Rightarrow> Inr day)"

text \<open>The loop: the first exception ends it, and leaves the function.\<close>

fun add_weather_days :: "ustr \<Rightarrow> pyval list \<Rightarrow> py_error + pyval list" where
  "add_weather_days weather [] = Inr []"
| "add_weather_days weather (day # days) =
     bind (add_weather_day weather day) (\<lambda>day'.
     bind (add_weather_days weather days) (\<lambda>days'.
     Inr (day' # days')))"

text \<open>
  \<^verbatim>\<open>for day in itinerary_json\<close> on any value: a list is iterated; a string yields its
  characters and a dict its keys, none of which is a dict, so nothing changes; any other
  value is not iterable.
\<close>

definition add_weather :: "ustr \<Rightarrow> pyval \<Rightarrow> py_error + pyval" where
  "add_weather weather itinerary_json =
     (case itinerary_json of
        PList days \<Rightarrow> bind (add_weather_days weather days) (\<lambda>days'. Inr (PList days'))
      | PStr s \<Rightarrow> Inr itinerary_json
      | PDict kvs \<Rightarrow> Inr itinerary_json
      | _ \<Rightarrow> Inl TypeError)"

definition create_itinerary :: "env \<Rightarrow> ustr \<Rightarrow> int \<Rightarrow> ustr \<Rightarrow> py_error + pyval" where
  "create_itinerary env city days interests =
     bind (llm_generate env city days interests) (\<lambda>content.
     bind (parse_llm_json env content) (\<lambda>parsed.
     bind (get_weather env city) (\<lambda>weather.
     bind (add_weather weather (coerce_itinerary parsed)) (\<lambda>annotated.
     review_itinerary env annotated))))"

section \<open>A reference decoder and encoder\<close>

text \<open>
  Concrete inputs need a concrete \<^verbatim>\<open>json.loads\<close>. \<open>py_json_loads\<close> follows the decoder
  of Python's \<^verbatim>\<open>json\<close> module with its default settings: whitespace is space, tab,
  line feed and carriage return; the literals \<^verbatim>\<open>null\<close>, \<^verbatim>\<open>true\<close>, \<^verbatim>\<open>false\<close>,
  \<^verbatim>\<open>NaN\<close>, \<^verbatim>\<open>Infinity\<close> and \<^verbatim>\<open>-Infinity\<close>; numbers
  \<^verbatim>\<open>-?(0|[1-9][0-9]*)(\.[0-9]+)?([eE][-+]?[0-9]+)?\<close>, an \<^verbatim>\<open>int\<close> without fraction and
  exponent; strings with the escapes of JSON, a surrogate pair of two \<^verbatim>\<open>\u\<close> escapes
  joined, and raw control characters refused; arrays and objects without trailing comma,
  the last value of a repeated key winning at the place of the first. Every failure is
  a JSONDecodeError. Two limits of the interpreter are left out here and added by
  \<open>limited_loads\<close> below: its recursion limit on deeply nested input and its limit on
  the number of digits of an integer.

  The text is cut into tokens first; the tokens then drive a stack of the containers
  that are open.
\<close>

definition is_json_ws :: "nat \<Rightarrow> bool" where
  "is_json_ws c = (c = 32 \<or> c = 9 \<or> c = 10 \<or> c = 13)"

definition is_digit :: "nat \<Rightarrow> bool" where
  "is_digit c = (48 \<le> c \<and> c \<le> 57)"

definition hex_digit :: "nat \<Rightarrow> nat option" where
  "hex_digit c =
     (if 48 \<le> c \<and> c \<le> 57 then Some (c - 48)
      else if 97 \<le> c \<and> c \<le> 102 then Some (c - 87)
      else if 65 \<le> c \<and> c \<le> 70 then Some (c - 55)
      else None)"

fun hex_value :: "nat \<Rightarrow> ustr \<Rightarrow> nat option" where
  "hex_value acc [] = Some acc"
| "hex_value acc (c # cs) =
     (case hex_digit c of None \<Rightarrow> None | Some d \<Rightarrow> hex_value (acc * 16 + d) cs)"

definition hex4 :: "ustr \<Rightarrow> nat option" where
  "hex4 s = (if length s = 4 then hex_value 0 s else None)"

definition unescape :: "nat \<Rightarrow> nat option" where
  "unescape e =
     (if e = 34 \<or> e = 92 \<or> e = 47 then Some e
      else if e = 98 then Some 8
      else if e = 102 then Some 12
      else if e = 110 then Some 10
      else if e = 114 then Some 13
      else if e = 116 then Some 9
      else None)"

definition low_surrogate_escape :: "ustr \<Rightarrow> nat option" where
  "low_surrogate_escape s =
     (if take 2 s = [92, 117] then
        (case hex4 (take 4 (drop 2 s)) of
           Some l \<Rightarrow> if 56320 \<le> l \<and> l \<le> 57343 then Some l else None
         | None \<Rightarrow> None)
      else None)"

definition push_char :: "nat \<Rightarrow> (ustr \<times> ustr) option \<Rightarrow> (ustr \<times> ustr) option" where
  "push_char c r = map_option (\<lambda>(d, rest). (c # d, rest)) r"

definition scan_escape :: "ustr \<Rightarrow> (nat \<times> nat) option" where
  "scan_escape s =
     (case s of
        [] \<Rightarrow> None
      | e # es \<Rightarrow>
          if e = 117 then
            (case hex4 (take 4 es) of
               None \<Rightarrow> None
             | Some h \<Rightarrow>
                 (case (if 55296 \<le> h \<and> h \<le> 56319 then low_surrogate_escape (drop 4 es) else None) of
                    Some l \<Rightarrow> Some (65536 + (h - 55296) * 1024 + (l - 56320), 11)
                  | None \<Rightarrow> Some (h, 5)))
          else map_option (\<lambda>d. (d, 1)) (unescape e))"

fun scanstring :: "ustr \<Rightarrow> (ustr \<times> ustr) option" where
  "scanstring [] = None"
| "scanstring (c # cs) =
     (if c = 34 then Some ([], cs)
      else if c = 92 then
        (case scan_escape cs of
           None \<Rightarrow> None
         | Some (d, n) \<Rightarrow> push_char d (scanstring (drop n cs)))
      else if c < 32 then None
      else push_char c (scanstring cs))"


lemma scanstring_shorter: "scanstring s = Some (d, r) \<Longrightarrow> length r < length s"
proof (induction s arbitrary: d r rule: scanstring.induct)
  case 1
  then show ?case by simp
next
  case (2 c cs)
  then show ?case
    by (fastforce simp: push_char_def less_Suc_eq_le split: if_splits option.splits prod.splits
          intro: le_trans [OF less_imp_le])
qed

definition digits_value :: "ustr \<Rightarrow> int" where
  "digits_value ds = foldl (\<lambda>acc c. acc * 10 + (int c - 48)) 0 ds"

definition int_part :: "ustr \<Rightarrow> ustr" where
  "int_part s =
     (case takeWhile is_digit s of
        [] \<Rightarrow> []
      | d # ds \<Rightarrow> if d = 48 then [48] else d # ds)"

definition frac_part :: "ustr \<Rightarrow> ustr" where
  "frac_part s =
     (case s of
        [] \<Rightarrow> []
      | c # cs \<Rightarrow> if c = 46 \<and> takeWhile is_digit cs \<noteq> [] then c # takeWhile is_digit cs else [])"

definition exp_part :: "ustr \<Rightarrow> ustr" where
  "exp_part s =
     (case s of
        [] \<Rightarrow> []
      | c # cs \<Rightarrow>
          if c = 101 \<or> c = 69 then
            (let sign = (case cs of [] \<Rightarrow> [] | x # _ \<Rightarrow> if x = 43 \<or> x = 45 then [x] else []);
                 ds = takeWhile is_digit (drop (length sign) cs)
             in if ds = [] then [] else c # sign @ ds)
          else [])"

definition scan_number :: "ustr \<Rightarrow> (pyval \<times> nat) option" where
  "scan_number s =
     (let sign = (case s of [] \<Rightarrow> [] | c # _ \<Rightarrow> if c = 45 then [c] else []);
          ip = int_part (drop (length sign) s);
          fp = frac_part (drop (length (sign @ ip)) s);
          ep = exp_part (drop (length (sign @ ip @ fp)) s)
      in if ip = [] then None
         else if fp = [] \<and> ep = []
           then Some (PInt (if sign = [] then digits_value ip else - digits_value ip), length (sign @ ip))
         else Some (PFloat (sign @ ip @ fp @ ep), length (sign @ ip @ fp @ ep)))"

definition scan_literal :: "ustr \<Rightarrow> (pyval \<times> nat) option" where
  "scan_literal s =
     (if prefix (lit ''null'') s then Some (PNone, 4)
      else if prefix (lit ''true'') s then Some (PBool True, 4)
      else if prefix (lit ''false'') s then Some (PBool False, 5)
      else case scan_number s of
        Some r \<Rightarrow> Some r
      | None \<Rightarrow>
          if prefix (lit ''NaN'') s then Some (PFloat (lit ''NaN''), 3)
          else if prefix (lit ''Infinity'') s then Some (PFloat (lit ''Infinity''), 8)
          else if prefix (lit ''-Infinity'') s then Some (PFloat (lit ''-Infinity''), 9)
          else None)"

lemma scan_number_pos: "scan_number s = Some (v, n) \<Longrightarrow> 0 < n"
  by (auto simp: scan_number_def Let_def split: if_splits)

lemma scan_literal_pos: "scan_literal s = Some (v, n) \<Longrightarrow> 0 < n"
  by (auto simp: scan_literal_def split: if_splits option.splits dest: scan_number_pos)

datatype token = TLBrace | TRBrace | TLBracket | TRBracket | TColon | TComma | TValue pyval

definition punct :: "nat \<Rightarrow> token option" where
  "punct c =
     (if c = 123 then Some TLBrace
      else if c = 125 then Some TRBrace
      else if c = 91 then Some TLBracket
      else if c = 93 then Some TRBracket
      else if c = 58 then Some TColon
      else if c = 44 then Some TComma
      else None)"

function lex :: "ustr \<Rightarrow> token list option" where
  "lex [] = Some []"
| "lex (c # cs) =
     (if is_json_ws c then lex cs
      else if c = 34 then
        (case scanstring cs of
           None \<Rightarrow> None
         | Some (d, r) \<Rightarrow> map_option ((#) (TValue (PStr d))) (lex r))
      else case punct c of
        Some t \<Rightarrow> map_option ((#) t) (lex cs)
      | None \<Rightarrow>
          (case scan_literal (c # cs) of
             None \<Rightarrow> None
           | Some (v, n) \<Rightarrow> map_option ((#) (TValue v)) (lex (drop n (c # cs)))))"
  by pat_completeness auto
termination
proof (relation "measure length")
  fix c cs x2 x y
  assume "scanstring cs = Some x2" "(x, y) = x2"
  then have "length y < length cs"
    using scanstring_shorter [of cs x y] by simp
  then show "(y, c # cs) \<in> measure length" by simp
next
  fix c cs x2 x y
  assume "scan_literal (c # cs) = Some x2" "(x, y) = x2"
  then have "0 < y" using scan_literal_pos [of "c # cs" x y] by simp
  then show "(drop y (c # cs), c # cs) \<in> measure length" by simp
qed auto

datatype ctx = CList "pyval list" | CDict "(ustr \<times> pyval) list" | CKey "(ustr \<times> pyval) list" ustr

datatype expect = EValue | EFirst | EKeyOrEnd | EKey | EColon | ECommaOrEnd

datatype pstate = Run expect "ctx list" | Done pyval

definition push_value :: "pyval \<Rightarrow> ctx list \<Rightarrow> pstate option" where
  "push_value v stack =
     (case stack of
        [] \<Rightarrow> Some (Done v)
      | CList items # r \<Rightarrow> Some (Run ECommaOrEnd (CList (items @ [v]) # r))
      | CKey pairs k # r \<Rightarrow> Some (Run ECommaOrEnd (CDict (dict_set k v pairs) # r))
      | CDict pairs # r \<Rightarrow> None)"

definition open_value :: "token \<Rightarrow> ctx list \<Rightarrow> pstate option" where
  "open_value t stack =
     (case t of
        TValue v \<Rightarrow> push_value v stack
      | TLBracket \<Rightarrow> Some (Run EFirst (CList [] # stack))
      | TLBrace \<Rightarrow> Some (Run EKeyOrEnd (CDict [] # stack))
      | _ \<Rightarrow> None)"

definition open_key :: "token \<Rightarrow> ctx list \<Rightarrow> pstate option" where
  "open_key t stack =
     (case (t, stack) of
        (TValue (PStr k), CDict pairs # r) \<Rightarrow> Some (Run EColon (CKey pairs k # r))
      | _ \<Rightarrow> None)"

definition close_ctx :: "token \<Rightarrow> ctx list \<Rightarrow> pstate option" where
  "close_ctx t stack =
     (case (t, stack) of
        (TRBracket, CList items # r) \<Rightarrow> push_value (PList items) r
      | (TRBrace, CDict pairs # r) \<Rightarrow> push_value (PDict pairs) r
      | _ \<Rightarrow> None)"

definition step :: "token \<Rightarrow> pstate \<Rightarrow> pstate option" where
  "step t st =
     (case st of
        Done v \<Rightarrow> None
      | Run e stack \<Rightarrow>
          (case e of
             EValue \<Rightarrow> open_value t stack
           | EFirst \<Rightarrow> if t = TRBracket then close_ctx t stack else open_value t stack
           | EKeyOrEnd \<Rightarrow> if t = TRBrace then close_ctx t stack else open_key t stack
           | EKey \<Rightarrow> open_key t stack
           | EColon \<Rightarrow> if t = TColon then Some (Run EValue stack) else None
           | ECommaOrEnd \<Rightarrow>
               if t = TComma then
                 (case stack of
                    CList items # r \<Rightarrow> Some (Run EValue stack)
                  | CDict pairs # r \<Rightarrow> Some (Run EKey stack)
                  | _ \<Rightarrow> None)
               else close_ctx t stack))"

fun run :: "token list \<Rightarrow> pstate \<Rightarrow> pstate option" where
  "run [] st = Some st"
| "run (t # ts) st = (case step t st of None \<Rightarrow> None | Some st' \<Rightarrow> run ts st')"

definition py_json_loads :: "ustr \<Rightarrow> py_error + pyval" where
  "py_json_loads s =
     (case lex s of
        None \<Rightarrow> Inl JSONDecodeError
      | Some ts \<Rightarrow>
          (case run ts (Run EValue []) of
             Some (Done v) \<Rightarrow> Inr v
           | _ \<Rightarrow> Inl JSONDecodeError))"


text \<open>
  \<open>py_json_dumps\<close> is \<^verbatim>\<open>json.dumps\<close> with its default settings: separators
  \<^verbatim>\<open>", "\<close> and \<^verbatim>\<open>": "\<close>, and every code point outside printable ASCII escaped.
\<close>

definition hex_char :: "nat \<Rightarrow> nat" where
  "hex_char d = (if d < 10 then 48 + d else 87 + d)"

definition u_escape :: "nat \<Rightarrow> ustr" where
  "u_escape n =
     [92, 117, hex_char (n div 4096 mod 16), hex_char (n div 256 mod 16),
      hex_char (n div 16 mod 16), hex_char (n mod 16)]"

definition escape_char :: "nat \<Rightarrow> ustr" where
  "escape_char c =
     (if c = 34 then [92, 34]
      else if c = 92 then [92, 92]
      else if c = 10 then [92, 110]
      else if c = 13 then [92, 114]
      else if c = 9 then [92, 116]
      else if c = 8 then [92, 98]
      else if c = 12 then [92, 102]
      else if 32 \<le> c \<and> c \<le> 126 then [c]
      else if c < 65536 then u_escape c
      else u_escape (55296 + (c - 65536) div 1024) @ u_escape (56320 + (c - 65536) mod 1024))"

definition dumps_str :: "ustr \<Rightarrow> ustr" where
  "dumps_str s = 34 # concat (map escape_char s) @ [34]"

fun decimal :: "nat \<Rightarrow> ustr" where
  "decimal n = (if n < 10 then [48 + n] else decimal (n div 10) @ [48 + n mod 10])"

declare decimal.simps [simp del]

definition dumps_int :: "int \<Rightarrow> ustr" where
  "dumps_int i = (if i < 0 then 45 # decimal (nat (- i)) else decimal (nat i))"

fun join :: "'a list \<Rightarrow> 'a list list \<Rightarrow> 'a list" where
  "join sep [] = []"
| "join sep [x] = x"
| "join sep (x # y # ys) = x @ sep @ join sep (y # ys)"

fun py_json_dumps :: "pyval \<Rightarrow> ustr" where
  "py_json_dumps PNone = lit ''null''"
| "py_json_dumps (PBool b) = (if b then lit ''true'' else lit ''false'')"
| "py_json_dumps (PInt i) = dumps_int i"
| "py_json_dumps (PFloat r) = r"
| "py_json_dumps (PStr s) = dumps_str s"
| "py_json_dumps (PList xs) = lit ''['' @ join (lit '', '') (map py_json_dumps xs) @ lit '']''"
| "py_json_dumps (PDict kvs) =
     lit ''{'' @ join (lit '', '') (map (\<lambda>kv. dumps_str (fst kv) @ lit '': '' @ py_json_dumps (snd kv)) kvs) @ lit ''}''"

subsection \<open>Values that are read back\<close>




text \<open>
  What may follow a number in a serialization: nothing, a comma or a closing bracket or
  brace.
\<close>

definition closes :: "ustr \<Rightarrow> bool" where
  "closes rest = (case rest of [] \<Rightarrow> True | c # _ \<Rightarrow> c = 44 \<or> c = 93 \<or> c = 125)"





section \<open>Test doubles and the shape of an itinerary\<close>

text \<open>
  An environment for concrete runs: the generation call, the weather request and the
  review call each have a fixed outcome, \<^verbatim>\<open>json.loads\<close> is the reference decoder, and
  the URL quoting and the prompt template pass their text on. The stand-ins for
  \<^verbatim>\<open>json.dumps(v, indent=2)\<close> and for the rendering of a value that is not a string are
  never looked at by the runs below, which use string fields and a review call that
  ignores its prompt.
\<close>

definition mock_env :: "py_error + ustr \<Rightarrow> py_error + pyval \<Rightarrow> py_error + ustr \<Rightarrow> env" where
  "mock_env generated weather reviewed =
     \<lparr> json_loads = py_json_loads,
       quote = Inr,
       requests_get_json = (\<lambda>url. weather),
       format_value = (\<lambda>v. Inr (py_json_dumps v)),
       llm_generate = (\<lambda>city days interests. generated),
       json_dumps_indent = (\<lambda>v. Inr (py_json_dumps v)),
       from_messages = Inr,
       llm_review = (\<lambda>prompt. reviewed) \<rparr>"

text \<open>The response of the weather service for "Sunny" at 30 degrees.\<close>

definition sunny_response :: pyval where
  "sunny_response =
     PDict [(lit ''current_condition'', PList [PDict
       [(lit ''temp_C'', PStr (lit ''30'')),
        (lit ''weatherDesc'', PList [PDict [(lit ''value'', PStr (lit ''Sunny''))]])]])]"





text \<open>A day without activities and with empty notes.\<close>

definition empty_notes_day :: pyval where
  "empty_notes_day =
     PDict [(lit ''day'', PInt 1), (lit ''activities'', PList []), (lit ''notes'', PStr [])]"

text \<open>A one-day itinerary.\<close>

definition sample_itinerary :: pyval where
  "sample_itinerary =
     PList [PDict [(lit ''day'', PInt 1), (lit ''activities'', PList []), (lit ''notes'', PStr (lit ''x''))]]"

text \<open>
  A sequence of Day-shaped values: a list whose elements are all mappings (every field
  of a Day may be absent).
\<close>

fun is_day_list :: "pyval \<Rightarrow> bool" where
  "is_day_list (PList days) = list_all is_dict days"
| "is_day_list v = False"

section \<open>Basic facts\<close>

lemmas decoder_simps = py_json_loads_def lit_def scan_number_def int_part_def frac_part_def
  exp_part_def is_digit_def Let_def digits_value_def scan_literal_def punct_def is_json_ws_def
  push_char_def scan_escape_def unescape_def hex4_def hex_digit_def low_surrogate_escape_def
  step_def push_value_def open_value_def open_key_def close_ctx_def

lemmas clean_simps = clean_text_def py_strip_def strip_with_def is_space_def fence_def
  fence_json_def lit_def

lemma bind_Inl [simp]: "bind (Inl e) f = Inl e"
  by (simp add: bind_def)

lemma bind_Inr [simp]: "bind (Inr x) f = f x"
  by (simp add: bind_def)

section \<open>Fence removal\<close>

text \<open>
  A run of backticks loses three at a time, so fewer than three are left of it: after
  \<^verbatim>\<open>replace\<close> no fence remains, and a text without a fence is left as it is.
\<close>

lemma fence_eq: "fence = [96, 96, 96]"
  by (simp add: fence_def lit_def)


lemma backtick_run_simps [simp]:
  "backtick_run [] = 0"
  "backtick_run (c # cs) = (if c = 96 then Suc (backtick_run cs) else 0)"
  by (simp_all add: backtick_run_def)

lemma prefix_fence_iff: "prefix fence s \<longleftrightarrow> 3 \<le> backtick_run s"
proof (cases s)
  case Nil
  then show ?thesis by (simp add: fence_eq)
next
  case (Cons a s1)
  show ?thesis
  proof (cases s1)
    case Nil
    with Cons show ?thesis by (simp add: fence_eq)
  next
    case (Cons b s2)
    with \<open>s = a # s1\<close> show ?thesis
      by (cases s2) (auto simp: fence_eq)
  qed
qed

lemma backtick_run_drop3:
  assumes "prefix fence (c # cs)"
  shows "backtick_run (c # cs) = 3 + backtick_run (drop 2 cs)"
proof -
  from assms obtain r where "c # cs = fence @ r"
    by (auto simp: prefix_def)
  then show ?thesis by (simp add: fence_eq)
qed

lemma backtick_run_replace: "backtick_run (replace_fence s) = backtick_run s mod 3"
proof (induction s rule: replace_fence.induct)
  case 1
  then show ?case by simp
next
  case (2 c cs)
  show ?case
  proof (cases "prefix fence (c # cs)")
    case True
    with 2 backtick_run_drop3 [OF True] show ?thesis by simp
  next
    case False
    then have small: "backtick_run (c # cs) < 3"
      by (simp add: prefix_fence_iff)
    with False 2 show ?thesis
      by (auto split: if_splits)
  qed
qed

lemma replace_fence_clean: "\<not> contains_fence (replace_fence s)"
proof (induction s rule: replace_fence.induct)
  case 1
  then show ?case by simp
next
  case (2 c cs)
  show ?case
  proof (cases "prefix fence (c # cs)")
    case True
    with 2 show ?thesis by simp
  next
    case False
    have "backtick_run (c # cs) mod 3 < 3"
      by (rule mod_less_divisor) simp
    then have "backtick_run (replace_fence (c # cs)) < 3"
      by (simp only: backtick_run_replace)
    then have "\<not> prefix fence (replace_fence (c # cs))"
      by (simp add: prefix_fence_iff)
    with False 2 show ?thesis by simp
  qed
qed

lemma contains_fence_iff: "contains_fence s \<longleftrightarrow> (\<exists>ps ss. s = ps @ fence @ ss)"
proof (induction s)
  case Nil
  then show ?case by (simp add: fence_eq)
next
  case (Cons c cs)
  show ?case
  proof
    assume "contains_fence (c # cs)"
    then consider "prefix fence (c # cs)" | "contains_fence cs" by auto
    then show "\<exists>ps ss. c # cs = ps @ fence @ ss"
    proof cases
      case 1
      then obtain r where "c # cs = fence @ r" by (auto simp: prefix_def)
      then have "c # cs = [] @ fence @ r" by simp
      then show ?thesis by blast
    next
      case 2
      with Cons obtain ps ss where "cs = ps @ fence @ ss" by blast
      then have "c # cs = (c # ps) @ fence @ ss" by simp
      then show ?thesis by blast
    qed
  next
    assume "\<exists>ps ss. c # cs = ps @ fence @ ss"
    then obtain ps ss where eq: "c # cs = ps @ fence @ ss" by blast
    show "contains_fence (c # cs)"
    proof (cases ps)
      case Nil
      with eq have "prefix fence (c # cs)" by (simp add: prefix_def)
      then show ?thesis by simp
    next
      case (Cons p ps')
      with eq have "cs = ps' @ fence @ ss" by simp
      with Cons.IH show ?thesis by auto
    qed
  qed
qed

lemma contains_fence_append:
  "contains_fence b \<Longrightarrow> contains_fence (a @ b @ c)"
proof -
  assume "contains_fence b"
  then obtain ps ss where "b = ps @ fence @ ss"
    by (auto simp: contains_fence_iff)
  then have "a @ b @ c = (a @ ps) @ fence @ (ss @ c)" by simp
  then show ?thesis unfolding contains_fence_iff by blast
qed

lemma strip_with_infix: "\<exists>a c. s = a @ strip_with P s @ c"
proof -
  let ?m = "dropWhile P s"
  have 1: "s = takeWhile P s @ ?m" by simp
  have "rev (dropWhile P (rev ?m)) @ rev (takeWhile P (rev ?m)) =
      rev (takeWhile P (rev ?m) @ dropWhile P (rev ?m))"
    by (simp only: rev_append)
  also have "\<dots> = ?m"
    by (simp only: takeWhile_dropWhile_id rev_rev_ident)
  finally have 2: "?m = strip_with P s @ rev (takeWhile P (rev ?m))"
    by (simp add: strip_with_def)
  from 1 2 have "s = takeWhile P s @ strip_with P s @ rev (takeWhile P (rev ?m))"
    by simp
  then show ?thesis by blast
qed

lemma strip_with_clean: "\<not> contains_fence s \<Longrightarrow> \<not> contains_fence (strip_with P s)"
  using strip_with_infix [of s P] contains_fence_append by metis

lemma clean_text_clean: "\<not> contains_fence (clean_text text)"
  by (simp add: clean_text_def py_strip_def strip_with_clean replace_fence_clean)




section \<open>The response normalizer: results\<close>

text \<open>
  C6. When decoding the cleaned text raises, \<open>parse_llm_json\<close> returns the one-day
  itinerary whose single activity has the raw text as its description, the place name
  "Unknown" and the time "All day", with empty notes.
\<close>

theorem parse_llm_json_fallback:
  assumes "json_loads env (clean_text text) = Inl e"
  shows "parse_llm_json env text =
     Inr (PList [PDict
       [(lit ''day'', PInt 1),
        (lit ''activities'', PList [PDict
           [(lit ''time'', PStr (lit ''All day'')),
            (lit ''place_name'', PStr (lit ''Unknown'')),
            (lit ''description'', PStr text)]]),
        (lit ''notes'', PStr [])]])"
  using assms by (simp add: parse_llm_json_def fallback_itinerary_def)

lemma clean_sorry: "clean_text (lit ''Sorry, I cannot help.'') = lit ''Sorry, I cannot help.''"
  by (simp add: clean_simps)

lemma loads_sorry: "py_json_loads (lit ''Sorry, I cannot help.'') = Inl JSONDecodeError"
  by (simp add: decoder_simps)

theorem parse_llm_json_fallback_witness:
  "json_loads (mock_env (Inl APIError) (Inl Timeout) (Inl APIError))
     (clean_text (lit ''Sorry, I cannot help.'')) = Inl JSONDecodeError \<and>
   parse_llm_json (mock_env (Inl APIError) (Inl Timeout) (Inl APIError))
     (lit ''Sorry, I cannot help.'') =
     Inr (PList [PDict
       [(lit ''day'', PInt 1),
        (lit ''activities'', PList [PDict
           [(lit ''time'', PStr (lit ''All day'')),
            (lit ''place_name'', PStr (lit ''Unknown'')),
            (lit ''description'', PStr (lit ''Sorry, I cannot help.''))]]),
        (lit ''notes'', PStr [])]])"
proof -
  have h: "json_loads (mock_env (Inl APIError) (Inl Timeout) (Inl APIError))
     (clean_text (lit ''Sorry, I cannot help.'')) = Inl JSONDecodeError"
    by (simp add: mock_env_def clean_sorry loads_sorry)
  from parse_llm_json_fallback [OF h] h show ?thesis by simp
qed

text \<open>
  A bare mapping goes through \<open>parse_llm_json\<close> unchanged: for the text of a single
  JSON object the result is a dict, not a list.
\<close>

lemma clean_single_day:
  \<open>clean_text (lit ''{"day":1,"activities":[],"notes":"x"}'') = lit ''{"day":1,"activities":[],"notes":"x"}''\<close>
  by (simp add: clean_simps)

lemma loads_single_day:
  \<open>py_json_loads (lit ''{"day":1,"activities":[],"notes":"x"}'') =
     Inr (PDict [(lit ''day'', PInt 1), (lit ''activities'', PList []), (lit ''notes'', PStr (lit ''x''))])\<close>
  by (simp add: decoder_simps)

theorem parse_llm_json_bare_mapping:
  \<open>parse_llm_json (mock_env (Inl APIError) (Inl Timeout) (Inl APIError))
      (lit ''{"day":1,"activities":[],"notes":"x"}'') =
     Inr (PDict [(lit ''day'', PInt 1), (lit ''activities'', PList []), (lit ''notes'', PStr (lit ''x''))]) \<and>
   \<not> is_list (PDict [(lit ''day'', PInt 1), (lit ''activities'', PList []), (lit ''notes'', PStr (lit ''x''))]) \<and>
   \<not> is_day_list (PDict [(lit ''day'', PInt 1), (lit ''activities'', PList []), (lit ''notes'', PStr (lit ''x''))])\<close>
  by (simp add: parse_llm_json_def mock_env_def clean_single_day loads_single_day)

text \<open>
  C1 (amended). For every input string, \<open>parse_llm_json\<close> returns without raising.
  Its result is the value decoded from the cleaned text, of whatever shape (a mapping, a
  string, a number, a list), when decoding succeeds; otherwise it is the fallback, a
  one-element list holding one Day-shaped mapping.
\<close>

theorem parse_llm_json_total:
  "\<exists>v. parse_llm_json env text = Inr v \<and>
     (json_loads env (clean_text text) = Inr v \<or>
      (\<exists>e. json_loads env (clean_text text) = Inl e) \<and>
      (\<exists>activity. v = PList [PDict
          [(lit ''day'', PInt 1), (lit ''activities'', PList [PDict activity]), (lit ''notes'', PStr [])]]) \<and>
      is_day_list v)"
  by (cases "json_loads env (clean_text text)")
     (simp_all add: parse_llm_json_def fallback_itinerary_def)

section \<open>The weather lookup: results\<close>

lemma get_weather_cases:
  "get_weather env city =
     Inr (case get_weather_try env city of Inr s \<Rightarrow> s | Inl e \<Rightarrow> weather_unavailable)"
  by (simp add: get_weather_def split: sum.splits)

text \<open>
  C3. \<open>get_weather\<close> never raises. A failure of the URL quoting, of the request (a
  timeout, a network error), of one of the subscripts on the response (a malformed
  response) or of the rendering of a field gives exactly "Weather data unavailable";
  otherwise the result is the description, a comma and a space, the temperature, the
  degree sign and "C".
\<close>

theorem get_weather_never_raises:
  "(\<exists>s. get_weather env city = Inr s) \<and>
   (\<forall>e. quote env city = Inl e \<longrightarrow>
      get_weather env city = Inr (lit ''Weather data unavailable'')) \<and>
   (\<forall>q e. quote env city = Inr q \<longrightarrow> requests_get_json env (weather_url q) = Inl e \<longrightarrow>
      get_weather env city = Inr (lit ''Weather data unavailable'')) \<and>
   (\<forall>q data e. quote env city = Inr q \<longrightarrow> requests_get_json env (weather_url q) = Inr data \<longrightarrow>
      weather_fields data = Inl e \<longrightarrow>
      get_weather env city = Inr (lit ''Weather data unavailable'')) \<and>
   (\<forall>q data desc temp e. quote env city = Inr q \<longrightarrow>
      requests_get_json env (weather_url q) = Inr data \<longrightarrow>
      weather_fields data = Inr (desc, temp) \<longrightarrow>
      (py_format env desc = Inl e \<or> py_format env temp = Inl e) \<longrightarrow>
      get_weather env city = Inr (lit ''Weather data unavailable'')) \<and>
   (\<forall>q data desc temp d t. quote env city = Inr q \<longrightarrow>
      requests_get_json env (weather_url q) = Inr data \<longrightarrow>
      weather_fields data = Inr (desc, temp) \<longrightarrow>
      py_format env desc = Inr d \<longrightarrow> py_format env temp = Inr t \<longrightarrow>
      get_weather env city = Inr (d @ lit '', '' @ t @ [176, 67]))"
proof (intro conjI allI impI)
  show "\<exists>s. get_weather env city = Inr s"
    by (simp add: get_weather_cases)
next
  fix e assume "quote env city = Inl e"
  then show "get_weather env city = Inr (lit ''Weather data unavailable'')"
    by (simp add: get_weather_def get_weather_try_def weather_unavailable_def)
next
  fix q e assume "quote env city = Inr q" "requests_get_json env (weather_url q) = Inl e"
  then show "get_weather env city = Inr (lit ''Weather data unavailable'')"
    by (simp add: get_weather_def get_weather_try_def weather_unavailable_def)
next
  fix q data e
  assume "quote env city = Inr q" "requests_get_json env (weather_url q) = Inr data"
    "weather_fields data = Inl e"
  then show "get_weather env city = Inr (lit ''Weather data unavailable'')"
    by (simp add: get_weather_def get_weather_try_def weather_unavailable_def)
next
  fix q data desc temp e
  assume "quote env city = Inr q" "requests_get_json env (weather_url q) = Inr data"
    "weather_fields data = Inr (desc, temp)"
    "py_format env desc = Inl e \<or> py_format env temp = Inl e"
  then show "get_weather env city = Inr (lit ''Weather data unavailable'')"
    by (cases "py_format env desc")
       (auto simp: get_weather_def get_weather_try_def weather_unavailable_def)
next
  fix q data desc temp d t
  assume "quote env city = Inr q" "requests_get_json env (weather_url q) = Inr data"
    "weather_fields data = Inr (desc, temp)" "py_format env desc = Inr d"
    "py_format env temp = Inr t"
  then show "get_weather env city = Inr (d @ lit '', '' @ t @ [176, 67])"
    by (simp add: get_weather_def get_weather_try_def weather_text_def)
qed

lemma sunny_fields:
  "weather_fields sunny_response = Inr (PStr (lit ''Sunny''), PStr (lit ''30''))"
  by (simp add: weather_fields_def sunny_response_def lit_def)

theorem get_weather_never_raises_witness:
  "quote (mock_env (Inl APIError) (Inr sunny_response) (Inl APIError)) (lit ''Mumbai'') =
     Inr (lit ''Mumbai'') \<and>
   requests_get_json (mock_env (Inl APIError) (Inr sunny_response) (Inl APIError))
     (weather_url (lit ''Mumbai'')) = Inr sunny_response \<and>
   weather_fields sunny_response = Inr (PStr (lit ''Sunny''), PStr (lit ''30'')) \<and>
   get_weather (mock_env (Inl APIError) (Inr sunny_response) (Inl APIError)) (lit ''Mumbai'') =
     Inr (lit ''Sunny, 30'' @ [176, 67]) \<and>
   requests_get_json (mock_env (Inl APIError) (Inl Timeout) (Inl APIError))
     (weather_url (lit ''Mumbai'')) = Inl Timeout \<and>
   get_weather (mock_env (Inl APIError) (Inl Timeout) (Inl APIError)) (lit ''Mumbai'') =
     Inr (lit ''Weather data unavailable'') \<and>
   weather_fields (PDict [(lit ''current_condition'', PList [])]) = Inl IndexError \<and>
   get_weather (mock_env (Inl APIError) (Inr (PDict [(lit ''current_condition'', PList [])])) (Inl APIError))
     (lit ''Mumbai'') = Inr (lit ''Weather data unavailable'')"
proof -
  let ?ok = "mock_env (Inl APIError) (Inr sunny_response) (Inl APIError)"
  let ?down = "mock_env (Inl APIError) (Inl Timeout) (Inl APIError)"
  let ?bad = "mock_env (Inl APIError) (Inr (PDict [(lit ''current_condition'', PList [])])) (Inl APIError)"
  let ?city = "lit ''Mumbai''"
  have q: "quote ?ok ?city = Inr ?city" "quote ?down ?city = Inr ?city" "quote ?bad ?city = Inr ?city"
    by (simp_all add: mock_env_def)
  have r: "requests_get_json ?ok (weather_url ?city) = Inr sunny_response"
    "requests_get_json ?down (weather_url ?city) = Inl Timeout"
    "requests_get_json ?bad (weather_url ?city) = Inr (PDict [(lit ''current_condition'', PList [])])"
    by (simp_all add: mock_env_def)
  have f: "py_format ?ok (PStr (lit ''Sunny'')) = Inr (lit ''Sunny'')"
    "py_format ?ok (PStr (lit ''30'')) = Inr (lit ''30'')"
    by (simp_all add: py_format_def)
  have m: "weather_fields (PDict [(lit ''current_condition'', PList [])]) = Inl IndexError"
    by (simp add: weather_fields_def lit_def)
  from get_weather_never_raises [of ?ok ?city] q(1) r(1) sunny_fields f
  have a: "get_weather ?ok ?city = Inr (lit ''Sunny'' @ lit '', '' @ lit ''30'' @ [176, 67])"
    by blast
  from get_weather_never_raises [of ?down ?city] q(2) r(2)
  have b: "get_weather ?down ?city = Inr (lit ''Weather data unavailable'')"
    by blast
  from get_weather_never_raises [of ?bad ?city] q(3) r(3) m
  have c: "get_weather ?bad ?city = Inr (lit ''Weather data unavailable'')"
    by blast
  have "lit ''Sunny'' @ lit '', '' @ lit ''30'' @ [176, 67] = lit ''Sunny, 30'' @ [176, 67]"
    by (simp add: lit_def)
  with a have a': "get_weather ?ok ?city = Inr (lit ''Sunny, 30'' @ [176, 67])" by simp
  from q(1) r(1) sunny_fields a' r(2) b m c show ?thesis by blast
qed

section \<open>The itinerary reviewer: results\<close>

text \<open>
  C4. Once its prompt is built, \<open>review_itinerary\<close> returns the itinerary it was given
  when the review call raises and when the normalized response is not a list; it returns
  the normalized response when that is a list, and a result that differs from the
  itinerary given can only be such a list.
\<close>

theorem review_itinerary_reverts:
  assumes "json_dumps_indent env itinerary = Inr dumped"
    and "from_messages env (review_human_message dumped) = Inr prompt"
  shows "(\<forall>e. llm_review env prompt = Inl e \<longrightarrow> review_itinerary env itinerary = Inr itinerary) \<and>
    (\<forall>content revised. llm_review env prompt = Inr content \<longrightarrow>
        parse_llm_json env content = Inr revised \<longrightarrow> \<not> is_list revised \<longrightarrow>
        review_itinerary env itinerary = Inr itinerary) \<and>
    (\<forall>content revised. llm_review env prompt = Inr content \<longrightarrow>
        parse_llm_json env content = Inr revised \<longrightarrow> is_list revised \<longrightarrow>
        review_itinerary env itinerary = Inr revised) \<and>
    (\<forall>result. review_itinerary env itinerary = Inr result \<longrightarrow> result \<noteq> itinerary \<longrightarrow>
        (\<exists>content. llm_review env prompt = Inr content \<and>
           parse_llm_json env content = Inr result \<and> is_list result))"
proof -
  have total: "\<exists>v. parse_llm_json env content = Inr v" for content
    by (simp add: parse_llm_json_def split: sum.splits)
  show ?thesis
  proof (cases "llm_review env prompt")
    case (Inl e)
    with assms show ?thesis
      by (simp add: review_itinerary_def review_try_def)
  next
    case (Inr content)
    obtain v where v: "parse_llm_json env content = Inr v"
      using total by blast
    with assms Inr show ?thesis
      by (simp add: review_itinerary_def review_try_def)
  qed
qed

theorem review_itinerary_reverts_witness:
  \<open>json_dumps_indent (mock_env (Inl APIError) (Inl Timeout) (Inl APIError)) sample_itinerary =
     Inr (py_json_dumps sample_itinerary) \<and>
   from_messages (mock_env (Inl APIError) (Inl Timeout) (Inl APIError))
     (review_human_message (py_json_dumps sample_itinerary)) =
     Inr (review_human_message (py_json_dumps sample_itinerary)) \<and>
   llm_review (mock_env (Inl APIError) (Inl Timeout) (Inl APIError))
     (review_human_message (py_json_dumps sample_itinerary)) = Inl APIError \<and>
   review_itinerary (mock_env (Inl APIError) (Inl Timeout) (Inl APIError)) sample_itinerary =
     Inr sample_itinerary \<and>
   llm_review (mock_env (Inl APIError) (Inl Timeout) (Inr (lit ''{"day":1,"activities":[],"notes":"x"}'')))
     (review_human_message (py_json_dumps sample_itinerary)) =
     Inr (lit ''{"day":1,"activities":[],"notes":"x"}'') \<and>
   \<not> is_list (PDict [(lit ''day'', PInt 1), (lit ''activities'', PList []), (lit ''notes'', PStr (lit ''x''))]) \<and>
   review_itinerary (mock_env (Inl APIError) (Inl Timeout) (Inr (lit ''{"day":1,"activities":[],"notes":"x"}'')))
     sample_itinerary = Inr sample_itinerary\<close>
proof -
  let ?e1 = "mock_env (Inl APIError) (Inl Timeout) (Inl APIError)"
  let ?c = \<open>lit ''{"day":1,"activities":[],"notes":"x"}''\<close>
  let ?e2 = "mock_env (Inl APIError) (Inl Timeout) (Inr ?c)"
  let ?d = "py_json_dumps sample_itinerary"
  let ?v = "PDict [(lit ''day'', PInt 1), (lit ''activities'', PList []), (lit ''notes'', PStr (lit ''x''))]"
  have d1: "json_dumps_indent ?e1 sample_itinerary = Inr ?d"
    and p1: "from_messages ?e1 (review_human_message ?d) = Inr (review_human_message ?d)"
    and r1: "llm_review ?e1 (review_human_message ?d) = Inl APIError"
    by (simp_all add: mock_env_def)
  have d2: "json_dumps_indent ?e2 sample_itinerary = Inr ?d"
    and p2: "from_messages ?e2 (review_human_message ?d) = Inr (review_human_message ?d)"
    and r2: "llm_review ?e2 (review_human_message ?d) = Inr ?c"
    by (simp_all add: mock_env_def)
  have v2: "parse_llm_json ?e2 ?c = Inr ?v"
    by (simp add: parse_llm_json_def mock_env_def clean_single_day loads_single_day)
  have n2: "\<not> is_list ?v" by simp
  from review_itinerary_reverts [OF d1 p1] r1
  have a: "review_itinerary ?e1 sample_itinerary = Inr sample_itinerary" by blast
  from review_itinerary_reverts [OF d2 p2] r2 v2 n2
  have b: "review_itinerary ?e2 sample_itinerary = Inr sample_itinerary" by blast
  from d1 p1 r1 a r2 n2 b show ?thesis by blast
qed

section \<open>Fences inside the text\<close>

lemma clean_fenced: "clean_text (lit ''```json[1]```'') = lit ''[1]''"
  by (simp add: clean_simps)

lemma clean_inner_fence: \<open>clean_text (lit ''["a```b"]'') = lit ''["ab"]''\<close>
  by (simp add: clean_simps)

lemma loads_inner_fence: \<open>py_json_loads (lit ''["a```b"]'') = Inr (PList [PStr (lit ''a```b'')])\<close>
  by (simp add: decoder_simps)

lemma loads_inner_cleaned: \<open>py_json_loads (lit ''["ab"]'') = Inr (PList [PStr (lit ''ab'')])\<close>
  by (simp add: decoder_simps)

text \<open>
  C10. The cleaned text that \<open>parse_llm_json\<close> decodes contains no three backticks,
  hence no \<^verbatim>\<open>```json\<close> either, wherever they stood in the input: a fenced text loses
  its fences, and so does a JSON string value. The text \<^verbatim>\<open>["a```b"]\<close> is well-formed
  JSON whose strict parse holds the backticks, and \<open>parse_llm_json\<close> returns a
  different value for it.
\<close>

theorem parse_llm_json_deletes_fences:
  \<open>\<not> (\<exists>ps ss. clean_text text = ps @ lit ''```'' @ ss) \<and>
   \<not> (\<exists>ps ss. clean_text text = ps @ lit ''```json'' @ ss) \<and>
   clean_text (lit ''```json[1]```'') = lit ''[1]'' \<and>
   py_json_loads (lit ''["a```b"]'') = Inr (PList [PStr (lit ''a```b'')]) \<and>
   parse_llm_json (mock_env (Inl APIError) (Inl Timeout) (Inl APIError)) (lit ''["a```b"]'') =
     Inr (PList [PStr (lit ''ab'')]) \<and>
   PList [PStr (lit ''ab'')] \<noteq> PList [PStr (lit ''a```b'')]\<close>
proof -
  have a: "\<not> (\<exists>ps ss. clean_text text = ps @ lit ''```'' @ ss)"
    using clean_text_clean [of "text"] by (simp add: contains_fence_iff fence_def)
  have b: "\<not> (\<exists>ps ss. clean_text text = ps @ lit ''```json'' @ ss)"
  proof
    assume "\<exists>ps ss. clean_text text = ps @ lit ''```json'' @ ss"
    then obtain ps ss where "clean_text text = ps @ lit ''```json'' @ ss" by blast
    then have "clean_text text = ps @ lit ''```'' @ (lit ''json'' @ ss)"
      by (simp add: lit_def)
    with a show False by blast
  qed
  have c: \<open>parse_llm_json (mock_env (Inl APIError) (Inl Timeout) (Inl APIError)) (lit ''["a```b"]'') =
     Inr (PList [PStr (lit ''ab'')])\<close>
    by (simp add: parse_llm_json_def mock_env_def clean_inner_fence loads_inner_cleaned)
  have d: "PList [PStr (lit ''ab'')] \<noteq> PList [PStr (lit ''a```b'')]"
    by (simp add: lit_def)
  from a b c d clean_fenced loads_inner_fence show ?thesis by blast
qed

section \<open>The decoder reads the encoder's output back\<close>

subsection \<open>Strings\<close>












subsection \<open>Integers and literals\<close>
















subsection \<open>Tokens\<close>

lemma closes_simps [simp]:
  "closes []" "closes (44 # r)" "closes (93 # r)" "closes (125 # r)"
  by (simp_all add: closes_def)




subsection \<open>The token machine\<close>

lemma run_append: "run (ts @ us) st = (case run ts st of None \<Rightarrow> None | Some st' \<Rightarrow> run us st')"
  by (induction ts arbitrary: st) (auto split: option.splits)








subsection \<open>Nothing to strip\<close>






subsection \<open>Distinct keys\<close>











section \<open>Re-serialization\<close>








text \<open>
  Surrogates written raw in a string are a second case: the decoder keeps the two code
  points, the encoder writes them as two escapes, and the decoder joins these into one
  code point.
\<close>

lemma raw_surrogates_not_restored:
  "py_json_loads [34, 55296, 56320, 34] = Inr (PStr [55296, 56320])"
  \<open>py_json_dumps (PStr [55296, 56320]) = lit ''"'' @ [92] @ lit ''ud800'' @ [92] @ lit ''udc00"''\<close>
  \<open>py_json_loads (lit ''"'' @ [92] @ lit ''ud800'' @ [92] @ lit ''udc00"'') = Inr (PStr [65536])\<close>
    apply (simp add: decoder_simps)
   apply (simp add: dumps_str_def escape_char_def u_escape_def hex_char_def lit_def)
  apply (simp add: decoder_simps)
  done




section \<open>The itinerary generator: results\<close>

subsection \<open>Coercion\<close>

text \<open>
  The coercion always gives a list: a dict is wrapped, a string and any other value
  that is not a list are replaced by a placeholder day, and a list is kept as it is.
\<close>

lemma coerce_itinerary_shapes:
  "is_list (coerce_itinerary v)"
  "coerce_itinerary (PDict kvs) = PList [PDict kvs]"
  "coerce_itinerary (PStr s) = PList [placeholder_day s]"
  "coerce_itinerary (PList xs) = PList xs"
  "\<not> is_dict v \<Longrightarrow> \<not> is_str v \<Longrightarrow> \<not> is_list v \<Longrightarrow>
   coerce_itinerary v = PList [placeholder_day (lit ''Invalid response format.'')]"
  by (cases v; simp add: coerce_itinerary_def)+

lemma loads_numbers: "py_json_loads (lit ''[1, 2]'') = Inr (PList [PInt 1, PInt 2])"
  by (simp add: decoder_simps)

lemma clean_numbers: "clean_text (lit ''[1, 2]'') = lit ''[1, 2]''"
  by (simp add: clean_simps)

text \<open>
  C2. A list is kept with whatever elements it has: for the generated text
  \<^verbatim>\<open>[1, 2]\<close> the value after the coercion is the list of the integers 1 and 2, which
  is not a sequence of Day-shaped mappings.
\<close>

theorem coerce_itinerary_keeps_elements:
  "parse_llm_json (mock_env (Inr (lit ''[1, 2]'')) (Inl Timeout) (Inl APIError)) (lit ''[1, 2]'') =
     Inr (PList [PInt 1, PInt 2]) \<and>
   coerce_itinerary (PList [PInt 1, PInt 2]) = PList [PInt 1, PInt 2] \<and>
   \<not> is_day_list (PList [PInt 1, PInt 2])"
  by (simp add: parse_llm_json_def mock_env_def clean_numbers loads_numbers coerce_itinerary_def)

subsection \<open>Weather annotation\<close>

text \<open>
  The weather summary never ends with a space or a bar, so \<^verbatim>\<open>strip(" |")\<close> takes
  nothing from the right end of the notes and, from the left end, at most what stands
  before "Weather:".
\<close>

lemma get_weather_try_text:
  assumes "get_weather_try env city = Inr s"
  shows "\<exists>d t. s = weather_text d t"
  using assms
  by (auto simp: get_weather_try_def bind_def split: sum.splits)

lemma get_weather_last:
  assumes "get_weather env city = Inr w"
  shows "w \<noteq> [] \<and> last w \<noteq> 32 \<and> last w \<noteq> 124"
proof (cases "get_weather_try env city")
  case (Inl e)
  with assms have "w = weather_unavailable" by (simp add: get_weather_def)
  then show ?thesis by (simp add: weather_unavailable_def lit_def)
next
  case (Inr s)
  with assms have "w = s" by (simp add: get_weather_def)
  with Inr get_weather_try_text obtain d t where "w = weather_text d t" by blast
  then show ?thesis by (simp add: weather_text_def)
qed

lemma strip_with_keeps:
  assumes "z \<noteq> []" and "\<not> P (hd z)" and "\<not> P (last z)"
  shows "\<exists>pre. strip_with P (xs @ z) = pre @ z"
    and "(\<forall>x\<in>set xs. P x) \<Longrightarrow> strip_with P (xs @ z) = z"
proof -
  from assms(1) obtain a z' where z: "z = a # z'" by (cases z) auto
  with assms(2) have a: "\<not> P a" by simp
  have left: "dropWhile P (xs @ z) = (if \<forall>x\<in>set xs. P x then z else dropWhile P xs @ z)"
    using a by (simp add: dropWhile_append z)
  have right: "rev (dropWhile P (rev (pre @ z))) = pre @ z" for pre
  proof -
    from assms(1) obtain b z'' where zr: "rev z = b # z''" by (cases "rev z") auto
    then have "b = last z"
      by (metis hd_rev list.sel(1))
    with assms(3) have "\<not> P b" by simp
    then have "dropWhile P (rev (pre @ z)) = rev (pre @ z)"
      by (simp add: zr)
    then show ?thesis by simp
  qed
  show "\<exists>pre. strip_with P (xs @ z) = pre @ z"
  proof (cases "\<forall>x\<in>set xs. P x")
    case True
    with left right [of "[]"] have "strip_with P (xs @ z) = [] @ z"
      by (simp add: strip_with_def)
    then show ?thesis by blast
  next
    case False
    with left right [of "dropWhile P xs"] have "strip_with P (xs @ z) = dropWhile P xs @ z"
      by (simp add: strip_with_def)
    then show ?thesis by blast
  qed
  show "strip_with P (xs @ z) = z" if "\<forall>x\<in>set xs. P x"
    using that left right [of "[]"] by (simp add: strip_with_def)
qed

lemma map_of_dict_set: "map_of (dict_set k v kvs) k = Some v"
  by (induction kvs) auto

lemma weather_suffix_split:
  "weather_suffix w = lit '' | '' @ (lit ''Weather: '' @ w)"
  by (simp add: weather_suffix_def lit_def)

lemma add_weather_day_notes:
  assumes "w \<noteq> []" and "last w \<noteq> 32" and "last w \<noteq> 124"
    and "dict_get kvs (lit ''notes'') (PStr []) = PStr n"
  shows "\<exists>notes'. add_weather_day w (PDict kvs) =
        Inr (PDict (dict_set (lit ''notes'') (PStr notes') kvs)) \<and>
      suffix (lit ''Weather: '' @ w) notes' \<and>
      (n = [] \<longrightarrow> notes' = lit ''Weather: '' @ w)"
proof -
  let ?P = "\<lambda>c. c \<in> set (lit '' |'')"
  let ?z = "lit ''Weather: '' @ w"
  have z: "?z \<noteq> []" "\<not> ?P (hd ?z)" "\<not> ?P (last ?z)"
    using assms(1-3) by (simp_all add: lit_def)
  have sep: "\<forall>x\<in>set (lit '' | ''). ?P x"
    by (simp add: lit_def)
  let ?notes = "py_strip_chars (lit '' |'') (n @ weather_suffix w)"
  have eq: "?notes = strip_with ?P ((n @ lit '' | '') @ ?z)"
    by (simp add: py_strip_chars_def weather_suffix_split)
  from strip_with_keeps(1) [OF z, of "n @ lit '' | ''"] eq
  obtain pre where "?notes = pre @ ?z" by auto
  then have suf: "suffix ?z ?notes" by (simp add: suffix_def)
  have empty: "?notes = ?z" if "n = []"
  proof -
    from that eq have "?notes = strip_with ?P (lit '' | '' @ ?z)" by simp
    with strip_with_keeps(2) [OF z sep] show ?thesis by simp
  qed
  have "add_weather_day w (PDict kvs) = Inr (PDict (dict_set (lit ''notes'') (PStr ?notes) kvs))"
    using assms(4) by (simp add: add_weather_day_def py_add_str_def)
  with suf empty show ?thesis by blast
qed

lemma add_weather_day_other: "\<not> is_dict day \<Longrightarrow> add_weather_day w day = Inr day"
  by (cases day) (simp_all add: add_weather_day_def)

lemma add_weather_days_all:
  assumes "\<forall>day\<in>set days. \<exists>day'. add_weather_day w day = Inr day'"
  shows "\<exists>days'. add_weather_days w days = Inr days' \<and>
      list_all2 (\<lambda>day day'. add_weather_day w day = Inr day') days days'"
  using assms
proof (induction days)
  case Nil
  then show ?case by simp
next
  case (Cons day days)
  then obtain day' where d: "add_weather_day w day = Inr day'" by auto
  from Cons obtain days' where ds: "add_weather_days w days = Inr days'"
    "list_all2 (\<lambda>day day'. add_weather_day w day = Inr day') days days'" by auto
  from d ds show ?case by simp
qed

text \<open>
  C5. Let the weather summary be the result of \<open>get_weather\<close>, and let every mapping
  of the coerced sequence carry notes that are text, or no notes at all. Then the
  annotation succeeds and keeps the length of the sequence; every mapping gets notes that
  end with "Weather: " followed by the summary, and that are exactly this when the notes
  were empty or absent; elements that are not mappings are left as they are.
\<close>

theorem add_weather_notes:
  assumes weather: "get_weather env city = Inr weather"
    and coerced: "coerce_itinerary parsed = PList days"
    and texts: "\<forall>kvs. PDict kvs \<in> set days \<longrightarrow> is_str (dict_get kvs (lit ''notes'') (PStr []))"
  shows "\<exists>days'. add_weather weather (coerce_itinerary parsed) = Inr (PList days') \<and>
      length days' = length days \<and>
      (\<forall>i<length days. \<forall>kvs old_notes. days ! i = PDict kvs \<longrightarrow>
          dict_get kvs (lit ''notes'') (PStr []) = PStr old_notes \<longrightarrow>
          (\<exists>kvs' new_notes. days' ! i = PDict kvs' \<and>
              map_of kvs' (lit ''notes'') = Some (PStr new_notes) \<and>
              suffix (lit ''Weather: '' @ weather) new_notes \<and>
              (old_notes = [] \<longrightarrow> new_notes = lit ''Weather: '' @ weather))) \<and>
      (\<forall>i<length days. \<not> is_dict (days ! i) \<longrightarrow> days' ! i = days ! i)"
proof -
  from get_weather_last [OF weather]
  have w: "weather \<noteq> []" "last weather \<noteq> 32" "last weather \<noteq> 124" by simp_all
  have each: "\<forall>day\<in>set days. \<exists>day'. add_weather_day weather day = Inr day'"
  proof
    fix day assume mem: "day \<in> set days"
    show "\<exists>day'. add_weather_day weather day = Inr day'"
    proof (cases "is_dict day")
      case False
      then show ?thesis by (simp add: add_weather_day_other)
    next
      case True
      then obtain kvs where day: "day = PDict kvs" by (cases day) auto
      with mem texts have "is_str (dict_get kvs (lit ''notes'') (PStr []))" by blast
      then obtain n where "dict_get kvs (lit ''notes'') (PStr []) = PStr n"
        by (cases "dict_get kvs (lit ''notes'') (PStr [])") auto
      from add_weather_day_notes [OF w this] day show ?thesis by blast
    qed
  qed
  from add_weather_days_all [OF each] obtain days' where
    run: "add_weather_days weather days = Inr days'" and
    rel: "list_all2 (\<lambda>day day'. add_weather_day weather day = Inr day') days days'" by blast
  from rel have len: "length days' = length days"
    by (simp add: list_all2_lengthD)
  have nth: "add_weather_day weather (days ! i) = Inr (days' ! i)" if "i < length days" for i
    using rel that by (rule list_all2_nthD)
  have res: "add_weather weather (coerce_itinerary parsed) = Inr (PList days')"
    using run coerced by (simp add: add_weather_def)
  have dicts: "\<forall>i<length days. \<forall>kvs old_notes. days ! i = PDict kvs \<longrightarrow>
          dict_get kvs (lit ''notes'') (PStr []) = PStr old_notes \<longrightarrow>
          (\<exists>kvs' new_notes. days' ! i = PDict kvs' \<and>
              map_of kvs' (lit ''notes'') = Some (PStr new_notes) \<and>
              suffix (lit ''Weather: '' @ weather) new_notes \<and>
              (old_notes = [] \<longrightarrow> new_notes = lit ''Weather: '' @ weather))"
  proof (intro allI impI)
    fix i kvs old_notes
    assume i: "i < length days" and day: "days ! i = PDict kvs"
      and n: "dict_get kvs (lit ''notes'') (PStr []) = PStr old_notes"
    from add_weather_day_notes [OF w n] obtain new_notes where
      a: "add_weather_day weather (PDict kvs) = Inr (PDict (dict_set (lit ''notes'') (PStr new_notes) kvs))"
      and b: "suffix (lit ''Weather: '' @ weather) new_notes"
      and c: "old_notes = [] \<longrightarrow> new_notes = lit ''Weather: '' @ weather" by blast
    from nth [OF i] day a have "days' ! i = PDict (dict_set (lit ''notes'') (PStr new_notes) kvs)"
      by simp
    with b c map_of_dict_set
    show "\<exists>kvs' new_notes. days' ! i = PDict kvs' \<and>
              map_of kvs' (lit ''notes'') = Some (PStr new_notes) \<and>
              suffix (lit ''Weather: '' @ weather) new_notes \<and>
              (old_notes = [] \<longrightarrow> new_notes = lit ''Weather: '' @ weather)"
      by blast
  qed
  have others: "\<forall>i<length days. \<not> is_dict (days ! i) \<longrightarrow> days' ! i = days ! i"
  proof (intro allI impI)
    fix i assume i: "i < length days" and "\<not> is_dict (days ! i)"
    with nth [OF i] show "days' ! i = days ! i"
      by (simp add: add_weather_day_other)
  qed
  from res len dicts others show ?thesis by blast
qed

lemma get_weather_sunny:
  "get_weather (mock_env g (Inr sunny_response) r) city = Inr (lit ''Sunny, 30'' @ [176, 67])"
  by (simp add: get_weather_def get_weather_try_def mock_env_def weather_fields_def
      sunny_response_def py_format_def weather_text_def lit_def)

lemma get_weather_timeout:
  "get_weather (mock_env g (Inl Timeout) r) city = Inr (lit ''Weather data unavailable'')"
  by (simp add: get_weather_def get_weather_try_def mock_env_def weather_unavailable_def)

theorem add_weather_notes_witness:
  "get_weather (mock_env (Inl APIError) (Inr sunny_response) (Inl APIError)) (lit ''Mumbai'') =
     Inr (lit ''Sunny, 30'' @ [176, 67]) \<and>
   coerce_itinerary (PList [empty_notes_day]) = PList [empty_notes_day] \<and>
   dict_get [(lit ''day'', PInt 1), (lit ''activities'', PList []), (lit ''notes'', PStr [])]
     (lit ''notes'') (PStr []) = PStr [] \<and>
   (\<exists>days' kvs'.
      add_weather (lit ''Sunny, 30'' @ [176, 67]) (coerce_itinerary (PList [empty_notes_day])) =
        Inr (PList days') \<and>
      length days' = 1 \<and> days' ! 0 = PDict kvs' \<and>
      map_of kvs' (lit ''notes'') = Some (PStr (lit ''Weather: '' @ lit ''Sunny, 30'' @ [176, 67])))"
proof -
  let ?e = "mock_env (Inl APIError) (Inr sunny_response) (Inl APIError)"
  let ?w = "lit ''Sunny, 30'' @ [176, 67]"
  let ?kvs = "[(lit ''day'', PInt 1), (lit ''activities'', PList []), (lit ''notes'', PStr [])]"
  have h1: "get_weather ?e (lit ''Mumbai'') = Inr ?w" by (rule get_weather_sunny)
  have h2: "coerce_itinerary (PList [empty_notes_day]) = PList [empty_notes_day]"
    by (simp add: coerce_itinerary_def)
  have n: "dict_get ?kvs (lit ''notes'') (PStr []) = PStr []"
    by (simp add: dict_get_def lit_def)
  have h3: "\<forall>kvs. PDict kvs \<in> set [empty_notes_day] \<longrightarrow>
      is_str (dict_get kvs (lit ''notes'') (PStr []))"
    using n by (simp add: empty_notes_day_def)
  from add_weather_notes [OF h1 h2 h3] obtain days' where
    a: "add_weather ?w (coerce_itinerary (PList [empty_notes_day])) = Inr (PList days')"
    and b: "length days' = length [empty_notes_day]"
    and c: "\<forall>i<length [empty_notes_day]. \<forall>kvs old_notes. [empty_notes_day] ! i = PDict kvs \<longrightarrow>
          dict_get kvs (lit ''notes'') (PStr []) = PStr old_notes \<longrightarrow>
          (\<exists>kvs' new_notes. days' ! i = PDict kvs' \<and>
              map_of kvs' (lit ''notes'') = Some (PStr new_notes) \<and>
              suffix (lit ''Weather: '' @ ?w) new_notes \<and>
              (old_notes = [] \<longrightarrow> new_notes = lit ''Weather: '' @ ?w))"
    by blast
  have "[empty_notes_day] ! 0 = PDict ?kvs" by (simp add: empty_notes_day_def)
  with c n obtain kvs' where
    "days' ! 0 = PDict kvs' \<and> map_of kvs' (lit ''notes'') = Some (PStr (lit ''Weather: '' @ ?w))"
    by fastforce
  with a b h1 h2 n show ?thesis by auto
qed

subsection \<open>Failures\<close>

lemma loads_numeric_notes:
  \<open>py_json_loads (lit ''[{"notes": 5}]'') = Inr (PList [PDict [(lit ''notes'', PInt 5)]])\<close>
  by (simp add: decoder_simps)

lemma clean_numeric_notes:
  \<open>clean_text (lit ''[{"notes": 5}]'') = lit ''[{"notes": 5}]''\<close>
  by (simp add: clean_simps)

lemma parse_numeric_notes:
  \<open>parse_llm_json (mock_env g w r) (lit ''[{"notes": 5}]'') =
     Inr (PList [PDict [(lit ''notes'', PInt 5)]])\<close>
  by (simp add: parse_llm_json_def mock_env_def clean_numeric_notes loads_numeric_notes)

lemma add_weather_numeric_notes:
  "add_weather w (coerce_itinerary (PList [PDict [(lit ''notes'', PInt 5)]])) = Inl TypeError"
  by (simp add: coerce_itinerary_def add_weather_def add_weather_day_def dict_get_def
      py_add_str_def)

text \<open>
  C9. The generated text \<^verbatim>\<open>[{"notes": 5}]\<close> is valid JSON, a list with a mapping
  whose notes are a number. With the generation call and the weather lookup both
  succeeding, the weather annotation raises TypeError and so does \<open>create_itinerary\<close>,
  whatever the review call would do.
\<close>

theorem create_itinerary_numeric_notes:
  \<open>llm_generate (mock_env (Inr (lit ''[{"notes": 5}]'')) (Inr sunny_response) reviewed)
      city days interests = Inr (lit ''[{"notes": 5}]'') \<and>
   py_json_loads (lit ''[{"notes": 5}]'') = Inr (PList [PDict [(lit ''notes'', PInt 5)]]) \<and>
   get_weather (mock_env (Inr (lit ''[{"notes": 5}]'')) (Inr sunny_response) reviewed) city =
     Inr (lit ''Sunny, 30'' @ [176, 67]) \<and>
   add_weather (lit ''Sunny, 30'' @ [176, 67])
     (coerce_itinerary (PList [PDict [(lit ''notes'', PInt 5)]])) = Inl TypeError \<and>
   create_itinerary (mock_env (Inr (lit ''[{"notes": 5}]'')) (Inr sunny_response) reviewed)
      city days interests = Inl TypeError\<close>
proof -
  let ?e = \<open>mock_env (Inr (lit ''[{"notes": 5}]'')) (Inr sunny_response) reviewed\<close>
  have g: \<open>llm_generate ?e city days interests = Inr (lit ''[{"notes": 5}]'')\<close>
    by (simp add: mock_env_def)
  have "create_itinerary ?e city days interests = Inl TypeError"
    by (simp add: create_itinerary_def g parse_numeric_notes get_weather_sunny
        add_weather_numeric_notes)
  with g loads_numeric_notes get_weather_sunny add_weather_numeric_notes
  show ?thesis by blast
qed

text \<open>A failure of the generation call leaves \<open>create_itinerary\<close> as it is raised.\<close>

lemma create_itinerary_generation_error:
  "llm_generate env city days interests = Inl e \<Longrightarrow>
   create_itinerary env city days interests = Inl e"
  by (simp add: create_itinerary_def)

text \<open>
  C7. With the weather request timing out and the review call failing, the generated
  text \<^verbatim>\<open>[{"notes": 5}]\<close> makes \<open>create_itinerary\<close> raise TypeError: the weather
  lookup degrades to its sentinel, and the annotation that follows aborts the pipeline.
\<close>

theorem create_itinerary_weather_down:
  \<open>requests_get_json (mock_env (Inr (lit ''[{"notes": 5}]'')) (Inl Timeout) (Inl APIError))
      (weather_url (lit ''Mumbai'')) = Inl Timeout \<and>
   get_weather (mock_env (Inr (lit ''[{"notes": 5}]'')) (Inl Timeout) (Inl APIError))
      (lit ''Mumbai'') = Inr (lit ''Weather data unavailable'') \<and>
   llm_review (mock_env (Inr (lit ''[{"notes": 5}]'')) (Inl Timeout) (Inl APIError)) prompt =
      Inl APIError \<and>
   create_itinerary (mock_env (Inr (lit ''[{"notes": 5}]'')) (Inl Timeout) (Inl APIError))
      (lit ''Mumbai'') 3 (lit ''food'') = Inl TypeError\<close>
proof -
  let ?e = \<open>mock_env (Inr (lit ''[{"notes": 5}]'')) (Inl Timeout) (Inl APIError)\<close>
  have g: \<open>llm_generate ?e (lit ''Mumbai'') 3 (lit ''food'') = Inr (lit ''[{"notes": 5}]'')\<close>
    by (simp add: mock_env_def)
  have c: "create_itinerary ?e (lit ''Mumbai'') 3 (lit ''food'') = Inl TypeError"
    by (simp add: create_itinerary_def g parse_numeric_notes get_weather_timeout
        add_weather_numeric_notes)
  have "requests_get_json ?e (weather_url (lit ''Mumbai'')) = Inl Timeout"
    "llm_review ?e prompt = Inl APIError"
    by (simp_all add: mock_env_def)
  with c get_weather_timeout show ?thesis by blast
qed

text \<open>
  The prompt of the review is built before its \<^verbatim>\<open>try\<close>: an exception of the
  serialization or of the prompt template leaves \<open>review_itinerary\<close>. Once the prompt
  is built the review returns, and \<open>create_itinerary\<close> returns whenever the generation
  call, the annotation and the construction of the prompt do, whatever the weather
  request and the review call do.
\<close>

lemma review_itinerary_prompt_error:
  "json_dumps_indent env itinerary = Inl e \<Longrightarrow> review_itinerary env itinerary = Inl e"
  "json_dumps_indent env itinerary = Inr dumped \<Longrightarrow>
   from_messages env (review_human_message dumped) = Inl e \<Longrightarrow>
   review_itinerary env itinerary = Inl e"
  by (simp_all add: review_itinerary_def)

lemma review_itinerary_returns:
  assumes "json_dumps_indent env itinerary = Inr dumped"
    and "from_messages env (review_human_message dumped) = Inr prompt"
  shows "\<exists>result. review_itinerary env itinerary = Inr result"
  using assms by (simp add: review_itinerary_def split: sum.splits)

lemma create_itinerary_returns:
  assumes "llm_generate env city days interests = Inr content"
    and "parse_llm_json env content = Inr parsed"
    and "get_weather env city = Inr weather"
    and "add_weather weather (coerce_itinerary parsed) = Inr annotated"
    and "json_dumps_indent env annotated = Inr dumped"
    and "from_messages env (review_human_message dumped) = Inr prompt"
  shows "\<exists>itinerary. create_itinerary env city days interests = Inr itinerary"
  using assms review_itinerary_returns [of env annotated dumped prompt]
  by (simp add: create_itinerary_def)

subsection \<open>A complete run\<close>

text \<open>
  The generation call returns one day with empty notes, the weather is "Sunny" at 30
  degrees and the review call fails: the result is that day with the notes
  "Weather: Sunny, 30" followed by the degree sign and "C".
\<close>

lemma clean_empty_notes:
  \<open>clean_text (lit ''[{"day":1,"activities":[],"notes":""}]'') =
     lit ''[{"day":1,"activities":[],"notes":""}]''\<close>
  by (simp add: clean_simps)

lemma loads_empty_notes:
  \<open>py_json_loads (lit ''[{"day":1,"activities":[],"notes":""}]'') = Inr (PList [empty_notes_day])\<close>
  by (simp add: decoder_simps empty_notes_day_def)

lemma annotate_empty_notes:
  "add_weather (lit ''Sunny, 30'' @ [176, 67]) (coerce_itinerary (PList [empty_notes_day])) =
     Inr (PList [PDict [(lit ''day'', PInt 1), (lit ''activities'', PList []),
       (lit ''notes'', PStr (lit ''Weather: Sunny, 30'' @ [176, 67]))]])"
  by (simp add: coerce_itinerary_def add_weather_def add_weather_day_def empty_notes_day_def
      dict_get_def py_add_str_def weather_suffix_def py_strip_chars_def strip_with_def lit_def)

lemma create_itinerary_scenario:
  \<open>create_itinerary
      (mock_env (Inr (lit ''[{"day":1,"activities":[],"notes":""}]'')) (Inr sunny_response) (Inl APIError))
      (lit ''Mumbai'') 3 (lit ''food'') =
     Inr (PList [PDict [(lit ''day'', PInt 1), (lit ''activities'', PList []),
       (lit ''notes'', PStr (lit ''Weather: Sunny, 30'' @ [176, 67]))]])\<close>
proof -
  let ?e = \<open>mock_env (Inr (lit ''[{"day":1,"activities":[],"notes":""}]'')) (Inr sunny_response) (Inl APIError)\<close>
  have p: \<open>parse_llm_json ?e (lit ''[{"day":1,"activities":[],"notes":""}]'') = Inr (PList [empty_notes_day])\<close>
    by (simp add: parse_llm_json_def clean_empty_notes) (simp add: mock_env_def loads_empty_notes)
  have g: \<open>llm_generate ?e (lit ''Mumbai'') 3 (lit ''food'') = Inr (lit ''[{"day":1,"activities":[],"notes":""}]'')\<close>
    by (simp add: mock_env_def)
  have r: "review_itinerary ?e v = Inr v" for v
    by (simp add: review_itinerary_def review_try_def mock_env_def)
  show ?thesis
    by (simp add: create_itinerary_def g p get_weather_sunny annotate_empty_notes r)
qed

end
